theory Spec2Isabelle
  imports Complex_Main
begin

section \<open>JavaScript values and arithmetic\<close>

text \<open>
  The two modules \<^verbatim>\<open>js/track_up_mode.js\<close> and \<^verbatim>\<open>js/simple_track_up.js\<close> compute
  with JavaScript Numbers. A finite Number is idealised as a real; the values a
  geolocation field can hold besides are kept apart: \<^verbatim>\<open>null\<close>, \<^verbatim>\<open>undefined\<close> and
  \<^verbatim>\<open>NaN\<close>. Constants of the source such as \<^verbatim>\<open>0.3\<close> are the decimal fractions
  they are written as, and \<^verbatim>\<open>Math.PI\<close> is \<open>pi\<close>.
\<close>

datatype jsnum = Null | Undefined | NaN | Num real

text \<open>\<^verbatim>\<open>typeof v === 'number'\<close>\<close>

fun typeof_number :: "jsnum \<Rightarrow> bool" where
  "typeof_number NaN = True"
| "typeof_number (Num x) = True"
| "typeof_number Null = False"
| "typeof_number Undefined = False"

text \<open>The global \<^verbatim>\<open>isNaN(v)\<close>: it converts first, \<^verbatim>\<open>null\<close> to 0 and \<^verbatim>\<open>undefined\<close> to NaN.\<close>

fun isNaN :: "jsnum \<Rightarrow> bool" where
  "isNaN NaN = True"
| "isNaN Undefined = True"
| "isNaN Null = False"
| "isNaN (Num x) = False"

text \<open>\<^verbatim>\<open>v > c\<close> for a Number constant \<open>c\<close>: \<^verbatim>\<open>null\<close> compares as 0, NaN never compares.\<close>

fun js_gt :: "jsnum \<Rightarrow> real \<Rightarrow> bool" where
  "js_gt (Num x) c = (c < x)"
| "js_gt Null c = (c < 0)"
| "js_gt Undefined c = False"
| "js_gt NaN c = False"

text \<open>Truthiness of a value used as a condition (\<^verbatim>\<open>speed && ...\<close>).\<close>

fun truthy :: "jsnum \<Rightarrow> bool" where
  "truthy (Num x) = (x \<noteq> 0)"
| "truthy Null = False"
| "truthy Undefined = False"
| "truthy NaN = False"

text \<open>
  The remainder operator \<^verbatim>\<open>a % n\<close>: the quotient is truncated towards zero, so the
  result has the sign of the dividend.
\<close>

definition js_rem :: "real \<Rightarrow> real \<Rightarrow> real" where
  "js_rem a n = a - n * of_int (if 0 \<le> a / n then \<lfloor>a / n\<rfloor> else \<lceil>a / n\<rceil>)"

text \<open>\<^verbatim>\<open>Math.atan2(y, x)\<close>: the angle of the point \<open>(x, y)\<close>, in \<open>(-pi, pi]\<close>.\<close>

definition atan2 :: "real \<Rightarrow> real \<Rightarrow> real" where
  "atan2 y x =
     (if 0 < x then arctan (y / x)
      else if x < 0 then (if 0 \<le> y then arctan (y / x) + pi else arctan (y / x) - pi)
      else if 0 < y then pi / 2
      else if y < 0 then - (pi / 2)
      else 0)"

text \<open>\<^verbatim>\<open>Math.round(x)\<close> and \<^verbatim>\<open>x.toFixed(0)\<close>, as the integer they print.\<close>

definition math_round :: "real \<Rightarrow> int" where
  "math_round x = \<lfloor>x + 1 / 2\<rfloor>"

definition toFixed0 :: "real \<Rightarrow> int" where
  "toFixed0 x = (if x < 0 then - \<lfloor>- x + 1 / 2\<rfloor> else \<lfloor>x + 1 / 2\<rfloor>)"

section \<open>Position samples\<close>

text \<open>
  \<^verbatim>\<open>position.coords\<close>: latitude and longitude are always Numbers; heading and speed
  may be \<^verbatim>\<open>null\<close> or NaN. The object stored for the next callback keeps the two
  coordinates (its timestamp is never read).
\<close>

record position =
  latitude :: real
  longitude :: real

record sample = position +
  heading :: jsnum
  speed :: jsnum

definition coords_of :: "sample \<Rightarrow> position" where
  "coords_of p = \<lparr>latitude = latitude p, longitude = longitude p\<rparr>"

section \<open>The page\<close>

text \<open>
  An inline style is a map from property names to values. What the source assigns is
  a plain text, a text carrying \<^verbatim>\<open>!important\<close>, or the template
  \<^verbatim>\<open>rotate(${a}deg) scale(${s})\<close>, kept as its two numbers.
\<close>

datatype css = Plain string | Important string | RotateScale real real

type_synonym style = "string \<rightharpoonup> css"

text \<open>
  \<^verbatim>\<open>element.style[p] = v\<close>. The empty text removes the declaration. A text with
  \<^verbatim>\<open>!important\<close> is not a value of any property (the priority is no part of a
  value for the style object's setters), so that assignment leaves the style as it was.
\<close>

fun set_style :: "string \<Rightarrow> css \<Rightarrow> style \<Rightarrow> style" where
  "set_style p (Plain v) st = (if v = [] then st(p := None) else st(p \<mapsto> Plain v))"
| "set_style p (Important v) st = st"
| "set_style p (RotateScale a s) st = st(p \<mapsto> RotateScale a s)"

text \<open>
  The elements that the selectors of the two modules can match, in document order.
  The document is flat: an element carries its class list, its tag and its
  \<^verbatim>\<open>src\<close> attribute.
\<close>

record element =
  classList :: "string list"
  tag :: string
  src :: string
  style :: style

text \<open>What the status element shows: a fixed text, or a heading printed in degrees.\<close>

datatype label = Lit string | HeadingLabel int | CalcLabel int

record status_element =
  textContent :: label
  status_style :: style

text \<open>
  \<open>leafletMap\<close> is the truth of \<^verbatim>\<open>window.leafletMap\<close>, \<open>mapContainer\<close> the style of
  what \<^verbatim>\<open>getContainer()\<close> returns and \<open>mapParent\<close> that of its parent element
  (\<open>None\<close> where there is none), \<open>statusElement\<close> the element with id
  \<^verbatim>\<open>track-up-status\<close>.
\<close>

record dom =
  leafletMap :: bool
  mapContainer :: "style option"
  mapParent :: "style option"
  elements :: "element list"
  statusElement :: "status_element option"

definition has_class :: "string \<Rightarrow> element \<Rightarrow> bool" where
  "has_class c e = (c \<in> set (classList e))"

text \<open>\<^verbatim>\<open>document.querySelectorAll(sel).forEach(f)\<close> for a selector given as a predicate.\<close>

definition for_each :: "(element \<Rightarrow> bool) \<Rightarrow> (element \<Rightarrow> element) \<Rightarrow> element list \<Rightarrow> element list" where
  "for_each sel f es = map (\<lambda>e. if sel e then f e else e) es"

text \<open>\<^verbatim>\<open>document.querySelector(sel)\<close>, then an update of that first match if there is one.\<close>

fun update_first :: "(element \<Rightarrow> bool) \<Rightarrow> (element \<Rightarrow> element) \<Rightarrow> element list \<Rightarrow> element list" where
  "update_first sel f [] = []"
| "update_first sel f (e # es) = (if sel e then f e # es else e # update_first sel f es)"

definition set_el :: "string \<Rightarrow> css \<Rightarrow> element \<Rightarrow> element" where
  "set_el p v e = e\<lparr>style := set_style p v (style e)\<rparr>"

definition set_all :: "(string \<times> css) list \<Rightarrow> style \<Rightarrow> style" where
  "set_all kvs st = fold (\<lambda>(p, v). set_style p v) kvs st"

text \<open>\<^verbatim>\<open>s.includes(sub)\<close>\<close>

fun starts_with :: "string \<Rightarrow> string \<Rightarrow> bool" where
  "starts_with s [] = True"
| "starts_with [] (c # cs) = False"
| "starts_with (x # xs) (c # cs) = (x = c \<and> starts_with xs cs)"

fun str_includes :: "string \<Rightarrow> string \<Rightarrow> bool" where
  "str_includes [] sub = (sub = [])"
| "str_includes (x # xs) sub = (starts_with (x # xs) sub \<or> str_includes xs sub)"

section \<open>\<^verbatim>\<open>js/track_up_mode.js\<close>\<close>

text \<open>
  The module's variables. \<^verbatim>\<open>lastPosition\<close> is used by the position callback but no
  \<^verbatim>\<open>let\<close>, \<^verbatim>\<open>var\<close> or parameter of the module declares it, so the name resolves to the
  global scope, where a binding may or may not exist: \<open>Declared v\<close> is a global holding
  \<open>v\<close> (\<open>None\<close> for a falsy value), \<open>Undeclared\<close> is no binding at all. The module is
  strict code: reading an unresolvable name throws a ReferenceError, and so does
  assigning to it. \<open>headingUpdateInterval\<close> is whether the one-second timer is set.
\<close>

datatype 'a binding = Undeclared | Declared 'a

datatype ref_site = AtRead | AtAssign

datatype error = ReferenceError ref_site

record tum =
  trackUpMode :: bool
  currentHeading :: real
  mapRotationEnabled :: bool
  lastValidHeading :: real
  headingUpdateInterval :: bool
  lastPosition :: "position option binding"
  page :: dom

definition updateTrackUpStatus :: "label \<Rightarrow> dom \<Rightarrow> dom" where
  "updateTrackUpStatus status d =
     (case statusElement d of
        None \<Rightarrow> d
      | Some el \<Rightarrow>
          d\<lparr>statusElement := Some (el\<lparr>textContent := status,
               status_style :=
                 (if status = Lit ''Track Up Active'' then
                    set_all [(''color'', Plain ''#2196F3''), (''fontWeight'', Plain ''bold'')]
                      (status_style el)
                  else if status = Lit ''GPS Error'' then
                    set_all [(''color'', Plain ''#f44336''), (''fontWeight'', Plain ''normal'')]
                      (status_style el)
                  else
                    set_all [(''color'', Plain ''#666''), (''fontWeight'', Plain ''normal'')]
                      (status_style el))\<rparr>)\<rparr>)"

definition elementsToCounterRotate :: "string list" where
  "elementsToCounterRotate =
     [''leaflet-control-zoom'', ''leaflet-control-attribution'',
      ''custom-location-indicator'', ''leaflet-marker-icon'']"

definition updateMapRotation :: "tum \<Rightarrow> tum" where
  "updateMapRotation s =
     (if \<not> leafletMap (page s) \<or> \<not> trackUpMode s then s
      else
        let rotationAngle = - currentHeading s in
        case mapContainer (page s) of
          None \<Rightarrow> s
        | Some c \<Rightarrow>
            let scale = 1.1;
                c' = set_all
                  [(''transform'', RotateScale rotationAngle scale),
                   (''transformOrigin'', Plain ''center center''),
                   (''transition'', Plain ''transform 0.5s ease-out''),
                   (''background'', Plain ''transparent''),
                   (''position'', Plain ''relative'')] c;
                parent' = map_option (set_all
                  [(''background'', Plain ''transparent''),
                   (''overflow'', Plain ''hidden''),
                   (''position'', Plain ''relative'')]) (mapParent (page s));
                es' = fold (\<lambda>selector. for_each (has_class selector)
                  (\<lambda>e. e\<lparr>style := set_all
                     [(''transform'', RotateScale (- rotationAngle) (1 / scale)),
                      (''transformOrigin'', Plain ''center center''),
                      (''transition'', Plain ''transform 0.5s ease-out'')] (style e)\<rparr>))
                  elementsToCounterRotate (elements (page s))
            in s\<lparr>page := (page s)\<lparr>mapContainer := Some c', mapParent := parent',
                  elements := es'\<rparr>\<rparr>)"

text \<open>
  \<^verbatim>\<open>updateUIElementsRotation(counterRotation, counterScale)\<close>. Every value written to
  a custom indicator carries \<^verbatim>\<open>!important\<close>. The same text is written to the
  \<^verbatim>\<open>transform\<close> of the indicator's parent element and of the parent of each marker
  container; \<open>set_style\<close> changes nothing for such a text on whatever element, so the
  flat document needs no parent here.
\<close>

definition updateUIElementsRotation :: "real \<Rightarrow> real \<Rightarrow> dom \<Rightarrow> dom" where
  "updateUIElementsRotation counterRotation counterScale d =
     (let es1 = fold (\<lambda>selector. for_each (has_class selector)
                  (\<lambda>e. e\<lparr>style := set_all
                     [(''transform'', RotateScale counterRotation counterScale),
                      (''transformOrigin'', Plain ''center center'')] (style e)\<rparr>))
                  [''leaflet-control'', ''leaflet-popup''] (elements d);
          es2 = for_each
                  (\<lambda>e. has_class ''custom-location-indicator'' e \<or> has_class ''custom-user-location'' e)
                  (\<lambda>e. e\<lparr>style := set_all
                     [(''visibility'', Important ''visible''),
                      (''opacity'', Important ''1''),
                      (''display'', Important ''block''),
                      (''zIndex'', Important ''1000''),
                      (''transform'', Important ''none''),
                      (''transformOrigin'', Important ''center center'')] (style e)\<rparr>) es1;
          es3 = update_first (has_class ''track-up-container-compact'')
                  (set_el ''transform'' (Plain ''none'')) es2;
          es4 = update_first (has_class ''controls-compact'')
                  (set_el ''transform'' (Plain ''none'')) es3
      in d\<lparr>elements := es4\<rparr>)"

definition is_custom :: "element \<Rightarrow> bool" where
  "is_custom e = (has_class ''custom-location-indicator'' e \<or> has_class ''custom-user-location'' e)"

text \<open>
  \<^verbatim>\<open>removeDefaultLocationMarkers()\<close>: three passes take elements out of the document,
  the fourth hides what is left of the markers that are not custom ones.
\<close>

definition removeDefaultLocationMarkers :: "dom \<Rightarrow> dom" where
  "removeDefaultLocationMarkers d =
     (let es1 = filter (\<lambda>e. \<not> (has_class ''leaflet-marker-icon'' e \<and> \<not> is_custom e)) (elements d);
          es2 = filter (\<lambda>e. \<not> (tag e = ''img'' \<and> has_class ''leaflet-marker-icon'' e \<and>
                  (str_includes (src e) ''marker-icon'' \<or> str_includes (src e) ''yellow'' \<or>
                   str_includes (src e) ''arrow'' \<or> str_includes (src e) ''location''))) es1;
          es3 = filter (\<lambda>e. \<not> has_class ''leaflet-marker-shadow'' e) es2;
          es4 = for_each (\<lambda>e. has_class ''leaflet-marker-icon'' e \<and> \<not> is_custom e)
                  (\<lambda>e. e\<lparr>style := set_all
                     [(''display'', Plain ''none''), (''visibility'', Plain ''hidden''),
                      (''opacity'', Plain ''0'')] (style e)\<rparr>) es3
      in d\<lparr>elements := es4\<rparr>)"

definition resetMapRotation :: "tum \<Rightarrow> tum" where
  "resetMapRotation s =
     (if leafletMap (page s) then
        (case mapContainer (page s) of
           None \<Rightarrow> s
         | Some c \<Rightarrow>
             let c' = set_style ''transform'' (Plain ''none'') c;
                 parent' = map_option (set_all
                   [(''overflow'', Plain []), (''position'', Plain []),
                    (''zIndex'', Plain []), (''backgroundColor'', Plain [])]) (mapParent (page s))
             in s\<lparr>page := updateUIElementsRotation 0 1
                   ((page s)\<lparr>mapContainer := Some c', mapParent := parent'\<rparr>)\<rparr>)
      else s)"

definition updateTrackUpMode :: "tum \<Rightarrow> tum" where
  "updateTrackUpMode s =
     (if trackUpMode s then
        updateMapRotation
          (s\<lparr>mapRotationEnabled := True,
             headingUpdateInterval := True,
             page := removeDefaultLocationMarkers
                       (updateTrackUpStatus (Lit ''Track Up Active'') (page s))\<rparr>)
      else
        resetMapRotation
          (s\<lparr>mapRotationEnabled := False,
             headingUpdateInterval := False,
             page := updateTrackUpStatus (Lit ''North Up'') (page s)\<rparr>))"

text \<open>The callback of the one-second timer; it runs only while the timer is set.\<close>

definition onInterval :: "tum \<Rightarrow> tum" where
  "onInterval s =
     (if headingUpdateInterval s \<and> trackUpMode s then
        (let s' = updateMapRotation s in s'\<lparr>page := removeDefaultLocationMarkers (page s')\<rparr>)
      else s)"

text \<open>
  The bearing of lines 109 to 113, from the stored position \<open>prev\<close> to the current
  one, in degrees, before line 115 normalises it.
\<close>

definition bearing :: "position \<Rightarrow> position \<Rightarrow> real" where
  "bearing prev cur =
     (let deltaLng = longitude cur - longitude prev in
      atan2 (sin (deltaLng * pi / 180) * cos (latitude cur * pi / 180))
            (cos (latitude prev * pi / 180) * sin (latitude cur * pi / 180) -
             sin (latitude prev * pi / 180) * cos (latitude cur * pi / 180) *
               cos (deltaLng * pi / 180))
        * 180 / pi)"

text \<open>
  Lines 87 to 124 of the position callback: the candidate \<^verbatim>\<open>newHeading\<close> and the value
  of \<^verbatim>\<open>lastValidHeading\<close> after them, or the error thrown where the condition of
  Method 2 reads \<^verbatim>\<open>lastPosition\<close>. \<^verbatim>\<open>lastValidHeading\<close> is always a Number, so the
  test \<^verbatim>\<open>lastValidHeading !== null\<close> of Method 3 holds.
\<close>

definition newHeading_of :: "sample \<Rightarrow> tum \<Rightarrow> error + real \<times> real" where
  "newHeading_of p s =
     (if heading p \<noteq> Null \<and> typeof_number (heading p) \<and> \<not> isNaN (heading p) then
        (case heading p of
           Num h \<Rightarrow>
             (if speed p = Null \<or> js_gt (speed p) 0.3 then Inr (h, h)
              else Inr (currentHeading s, lastValidHeading s))
         | _ \<Rightarrow> Inr (currentHeading s, lastValidHeading s))
      else
        (case lastPosition s of
           Undeclared \<Rightarrow> Inl (ReferenceError AtRead)
         | Declared lp \<Rightarrow>
             (case lp of
                Some prev \<Rightarrow>
                  (if speed p = Null \<or> js_gt (speed p) 0.5 then
                     (let deltaLat = latitude p - latitude prev;
                          deltaLng = longitude p - longitude prev
                      in if \<bar>deltaLat\<bar> > 0.00001 \<or> \<bar>deltaLng\<bar> > 0.00001 then
                           (let newHeading = js_rem (bearing prev (coords_of p) + 360) 360
                            in Inr (newHeading, newHeading))
                         else Inr (currentHeading s, lastValidHeading s))
                   else Inr (lastValidHeading s, lastValidHeading s))
              | None \<Rightarrow> Inr (lastValidHeading s, lastValidHeading s))))"

text \<open>
  The success callback of \<^verbatim>\<open>watchPosition\<close>. An exception ends the callback where it
  is thrown; what was assigned before stays assigned.
\<close>

definition onPosition :: "sample \<Rightarrow> tum \<Rightarrow> error option \<times> tum" where
  "onPosition p s =
     (case newHeading_of p s of
        Inl e \<Rightarrow> (Some e, s)
      | Inr (newHeading, lv) \<Rightarrow>
          let s1 = s\<lparr>lastValidHeading := lv\<rparr>;
              s2 = (if \<bar>newHeading - currentHeading s1\<bar> > 3 then
                      (let s' = s1\<lparr>currentHeading := newHeading\<rparr> in
                       if trackUpMode s' then
                         (let s'' = updateMapRotation s' in
                          s''\<lparr>page := updateTrackUpStatus
                                (HeadingLabel (toFixed0 (currentHeading s''))) (page s'')\<rparr>)
                       else s')
                    else s1)
          in (case lastPosition s2 of
                Undeclared \<Rightarrow> (Some (ReferenceError AtAssign), s2)
              | Declared old \<Rightarrow> (None, s2\<lparr>lastPosition := Declared (Some (coords_of p))\<rparr>)))"

text \<open>The error callback of \<^verbatim>\<open>watchPosition\<close>.\<close>

definition onError :: "tum \<Rightarrow> tum" where
  "onError s = s\<lparr>page := updateTrackUpStatus (Lit ''GPS Error'') (page s)\<rparr>"

text \<open>The \<^verbatim>\<open>deviceorientation\<close> listener; \<open>alpha\<close> is \<open>None\<close> for \<^verbatim>\<open>null\<close>.\<close>

definition onDeviceOrientation :: "real option \<Rightarrow> tum \<Rightarrow> tum" where
  "onDeviceOrientation alpha s =
     (case alpha of
        None \<Rightarrow> s
      | Some a \<Rightarrow>
          if trackUpMode s \<and> currentHeading s = 0 then
            (let compassHeading = js_rem (360 - a) 360
             in updateMapRotation (s\<lparr>currentHeading := compassHeading\<rparr>))
          else s)"

text \<open>The \<^verbatim>\<open>change\<close> listener of the toggle; \<open>checked\<close> is \<^verbatim>\<open>this.checked\<close>.\<close>

definition onToggle :: "bool \<Rightarrow> tum \<Rightarrow> tum" where
  "onToggle checked s = updateTrackUpMode (s\<lparr>trackUpMode := checked\<rparr>)"

text \<open>
  What the browser delivers to the page, one callback at a time. An exception thrown
  in a callback is reported and the page goes on with the state the callback left.
\<close>

datatype event =
    PositionUpdate sample
  | PositionError
  | DeviceOrientation "real option"
  | ToggleChange bool
  | IntervalTick

fun step :: "event \<Rightarrow> tum \<Rightarrow> tum" where
  "step (PositionUpdate p) s = snd (onPosition p s)"
| "step PositionError s = onError s"
| "step (DeviceOrientation alpha) s = onDeviceOrientation alpha s"
| "step (ToggleChange checked) s = onToggle checked s"
| "step IntervalTick s = onInterval s"

text \<open>The state after a sequence of events, oldest first.\<close>

definition run :: "event list \<Rightarrow> tum \<Rightarrow> tum" where
  "run evs s = fold step evs s"

text \<open>
  The module as it is loaded (lines 5 to 12) into a page \<open>d\<close>. None of the scripts
  declares \<^verbatim>\<open>lastPosition\<close>.
\<close>

definition init :: "dom \<Rightarrow> tum" where
  "init d = \<lparr>trackUpMode = False, currentHeading = 0, mapRotationEnabled = False,
             lastValidHeading = 0, headingUpdateInterval = False,
             lastPosition = Undeclared, page = d\<rparr>"

section \<open>\<^verbatim>\<open>js/simple_track_up.js\<close>\<close>

text \<open>
  The module's variables; its own \<^verbatim>\<open>currentHeading\<close> is \<open>s_currentHeading\<close> here.
  \<open>headingWatchId\<close> is whether the variable holds the handle of a watch. Every call of
  \<^verbatim>\<open>watchPosition\<close> registers one more watch with the browser and \<^verbatim>\<open>clearWatch\<close> ends
  the one whose handle it is given; \<open>liveWatches\<close> counts the watches that deliver to
  this module's callbacks. \<^verbatim>\<open>navigator.geolocation\<close> is taken to exist, in both modules.
\<close>

record simple =
  trackUpEnabled :: bool
  s_currentHeading :: real
  headingWatchId :: bool
  liveWatches :: nat
  lastKnownPosition :: "position option"
  s_page :: dom

definition updateStatus :: "label \<Rightarrow> dom \<Rightarrow> dom" where
  "updateStatus txt d =
     (case statusElement d of
        None \<Rightarrow> d
      | Some el \<Rightarrow> d\<lparr>statusElement := Some (el\<lparr>textContent := txt\<rparr>)\<rparr>)"

definition is_control :: "element \<Rightarrow> bool" where
  "is_control e = (has_class ''leaflet-control-zoom'' e \<or> has_class ''leaflet-control-attribution'' e)"

definition rotateMap :: "simple \<Rightarrow> simple" where
  "rotateMap s =
     (if \<not> leafletMap (s_page s) \<or> \<not> trackUpEnabled s then s
      else
        case mapContainer (s_page s) of
          None \<Rightarrow> s
        | Some c \<Rightarrow>
            let rotationAngle = - s_currentHeading s;
                scale = 1.5;
                c' = set_all
                  [(''transform'', RotateScale rotationAngle scale),
                   (''transformOrigin'', Plain ''center center''),
                   (''transition'', Plain ''transform 0.5s ease-out''),
                   (''overflow'', Plain ''hidden'')] c;
                es' = for_each is_control
                  (\<lambda>e. e\<lparr>style := set_all
                     [(''transform'', RotateScale (s_currentHeading s) (1 / scale)),
                      (''transformOrigin'', Plain ''center center'')] (style e)\<rparr>)
                  (elements (s_page s))
            in s\<lparr>s_page := (s_page s)\<lparr>mapContainer := Some c', elements := es'\<rparr>\<rparr>)"

text \<open>
  \<^verbatim>\<open>resetMapRotation()\<close> of this module. Without \<^verbatim>\<open>window.leafletMap\<close> the first
  statement throws a TypeError, which the \<^verbatim>\<open>catch\<close> swallows with the rest of the
  body.
\<close>

definition s_resetMapRotation :: "simple \<Rightarrow> simple" where
  "s_resetMapRotation s =
     (if \<not> leafletMap (s_page s) then s
      else
        let c' = map_option (set_all
                   [(''transform'', Plain ''none''),
                    (''transition'', Plain ''transform 0.5s ease-out'')]) (mapContainer (s_page s));
            es' = for_each is_control (set_el ''transform'' (Plain ''none'')) (elements (s_page s))
        in s\<lparr>s_page := (s_page s)\<lparr>mapContainer := c', elements := es'\<rparr>\<rparr>)"

text \<open>The success callback of the watch that \<^verbatim>\<open>startTrackUp\<close> registers.\<close>

definition s_onPosition :: "sample \<Rightarrow> simple \<Rightarrow> simple" where
  "s_onPosition p s =
     (let s1 =
        (if heading p \<noteq> Null \<and> heading p \<noteq> Undefined \<and> \<not> isNaN (heading p) then
           (case heading p of
              Num newHeading \<Rightarrow>
                (if speed p = Null \<or> js_gt (speed p) 0.5 then
                   (let s' = rotateMap (s\<lparr>s_currentHeading := newHeading\<rparr>) in
                    s'\<lparr>s_page := updateStatus (HeadingLabel (math_round newHeading)) (s_page s')\<rparr>)
                 else s)
            | _ \<Rightarrow> s)
         else
           (case lastKnownPosition s of
              Some prev \<Rightarrow>
                (if truthy (speed p) \<and> js_gt (speed p) 1.0 then
                   (let deltaLat = latitude p - latitude prev;
                        deltaLng = longitude p - longitude prev
                    in if \<bar>deltaLat\<bar> > 0.0001 \<or> \<bar>deltaLng\<bar> > 0.0001 then
                         (let bearing = atan2 deltaLng deltaLat * 180 / pi;
                              normalizedBearing = js_rem (bearing + 360) 360;
                              s' = rotateMap (s\<lparr>s_currentHeading := normalizedBearing\<rparr>)
                          in s'\<lparr>s_page := updateStatus (CalcLabel (math_round normalizedBearing))
                                 (s_page s')\<rparr>)
                       else s)
                 else s\<lparr>s_page := updateStatus (Lit ''No heading data'') (s_page s)\<rparr>)
            | None \<Rightarrow> s\<lparr>s_page := updateStatus (Lit ''No heading data'') (s_page s)\<rparr>))
      in s1\<lparr>lastKnownPosition := Some (coords_of p)\<rparr>)"

definition s_onError :: "simple \<Rightarrow> simple" where
  "s_onError s = s\<lparr>s_page := updateStatus (Lit ''GPS Error'') (s_page s)\<rparr>"

definition startTrackUp :: "simple \<Rightarrow> simple" where
  "startTrackUp s =
     s\<lparr>headingWatchId := True, liveWatches := liveWatches s + 1,
       s_page := updateStatus (Lit ''Starting...'') (s_page s)\<rparr>"

definition stopTrackUp :: "simple \<Rightarrow> simple" where
  "stopTrackUp s =
     (let s' = s_resetMapRotation
                 (if headingWatchId s
                  then s\<lparr>headingWatchId := False, liveWatches := liveWatches s - 1\<rparr>
                  else s)
      in s'\<lparr>s_page := updateStatus (Lit ''North Up'') (s_page s')\<rparr>)"

definition s_onToggle :: "bool \<Rightarrow> simple \<Rightarrow> simple" where
  "s_onToggle checked s =
     (let s' = s\<lparr>trackUpEnabled := checked\<rparr>
      in if trackUpEnabled s' then startTrackUp s' else stopTrackUp s')"

text \<open>
  This module has no orientation listener and no timer. A position or an error goes to
  the callback of every live watch, one after the other.
\<close>

fun s_step :: "event \<Rightarrow> simple \<Rightarrow> simple" where
  "s_step (PositionUpdate p) s = (s_onPosition p ^^ liveWatches s) s"
| "s_step PositionError s = (s_onError ^^ liveWatches s) s"
| "s_step (DeviceOrientation alpha) s = s"
| "s_step (ToggleChange checked) s = s_onToggle checked s"
| "s_step IntervalTick s = s"

definition s_run :: "event list \<Rightarrow> simple \<Rightarrow> simple" where
  "s_run evs s = fold s_step evs s"

definition s_init :: "dom \<Rightarrow> simple" where
  "s_init d = \<lparr>trackUpEnabled = False, s_currentHeading = 0, headingWatchId = False,
               liveWatches = 0, lastKnownPosition = None, s_page = d\<rparr>"

section \<open>The vocabulary of the specification\<close>

text \<open>A heading in degrees, at least 0 and below 360.\<close>

definition in_range :: "real \<Rightarrow> bool" where
  "in_range h = (0 \<le> h \<and> h < 360)"

text \<open>
  The spherical bearing formula for the initial course from the point
  \<open>(lat1, lng1)\<close> to the point \<open>(lat2, lng2)\<close>, all in degrees: with the angles in
  radians, \<open>atan2 (sin \<Delta>\<lambda> cos \<phi>2) (cos \<phi>1 sin \<phi>2 - sin \<phi>1 cos \<phi>2 cos \<Delta>\<lambda>)\<close>, brought
  into the range from 0 to 360.
\<close>

definition radians :: "real \<Rightarrow> real" where
  "radians d = d * pi / 180"

definition spherical_bearing :: "real \<Rightarrow> real \<Rightarrow> real \<Rightarrow> real \<Rightarrow> real" where
  "spherical_bearing lat1 lng1 lat2 lng2 =
     (let phi1 = radians lat1; phi2 = radians lat2;
          dlambda = radians lng2 - radians lng1;
          theta = atan2 (sin dlambda * cos phi2)
                    (cos phi1 * sin phi2 - sin phi1 * cos phi2 * cos dlambda);
          deg = theta * 180 / pi
      in if deg < 0 then deg + 360 else deg)"

text \<open>
  A transform is the identity when the style has no \<^verbatim>\<open>transform\<close>, or \<^verbatim>\<open>none\<close>, or a
  rotation by 0 with scale 1.
\<close>

fun is_identity :: "css option \<Rightarrow> bool" where
  "is_identity None = True"
| "is_identity (Some (Plain v)) = (v = ''none'')"
| "is_identity (Some (Important v)) = False"
| "is_identity (Some (RotateScale a k)) = (a = 0 \<and> k = 1)"


text \<open>
  The samples and orientation events of a conforming platform: a numeric heading is at
  least 0 and below 360, a compass angle \<open>alpha\<close> is at least 0 and at most 360.
\<close>

fun conforming :: "event \<Rightarrow> bool" where
  "conforming (PositionUpdate p) = (case heading p of Num h \<Rightarrow> in_range h | _ \<Rightarrow> True)"
| "conforming (DeviceOrientation alpha) = (case alpha of Some a \<Rightarrow> 0 \<le> a \<and> a \<le> 360 | None \<Rightarrow> True)"
| "conforming PositionError = True"
| "conforming (ToggleChange checked) = True"
| "conforming IntervalTick = True"

text \<open>The Heading State of the specification, for each module.\<close>

definition heading_state :: "tum \<Rightarrow> real \<times> real \<times> position option binding" where
  "heading_state s = (currentHeading s, lastValidHeading s, lastPosition s)"

definition s_heading_state :: "simple \<Rightarrow> real \<times> position option" where
  "s_heading_state s = (s_currentHeading s, lastKnownPosition s)"

text \<open>The committed heading after each event of a sequence.\<close>

fun headings_after :: "event list \<Rightarrow> tum \<Rightarrow> real list" where
  "headings_after [] s = []"
| "headings_after (e # es) s = currentHeading (step e s) # headings_after es (step e s)"

fun s_headings_after :: "event list \<Rightarrow> simple \<Rightarrow> real list" where
  "s_headings_after [] s = []"
| "s_headings_after (e # es) s = s_currentHeading (s_step e s) # s_headings_after es (s_step e s)"

text \<open>
  The bearing on a flat chart: the angle of the vector of the two coordinate
  differences, brought into the range from 0 to 360.
\<close>

definition planar_bearing :: "real \<Rightarrow> real \<Rightarrow> real \<Rightarrow> real \<Rightarrow> real" where
  "planar_bearing lat1 lng1 lat2 lng2 =
     (let deg = atan2 (lng2 - lng1) (lat2 - lat1) * 180 / pi
      in if deg < 0 then deg + 360 else deg)"

text \<open>Both headings that the estimator of \<^verbatim>\<open>track_up_mode.js\<close> keeps are in range.\<close>

definition inv :: "tum \<Rightarrow> bool" where
  "inv s = (in_range (currentHeading s) \<and> in_range (lastValidHeading s))"


definition upright :: "element \<Rightarrow> element" where
  "upright e = e\<lparr>style := set_all
                     [(''transform'', RotateScale 0 1),
                      (''transformOrigin'', Plain ''center center'')] (style e)\<rparr>"

definition reset_pass :: "bool \<Rightarrow> bool \<Rightarrow> element list \<Rightarrow> element list" where
  "reset_pass a b es =
     (if b then id else update_first (has_class ''controls-compact'') (set_el ''transform'' (Plain ''none'')))
       ((if a then id else update_first (has_class ''track-up-container-compact'')
            (set_el ''transform'' (Plain ''none'')))
          (map (\<lambda>e. if has_class ''leaflet-control'' e \<or> has_class ''leaflet-popup'' e
                     then upright e else e) es))"




section \<open>Example inputs\<close>

text \<open>
  A page with the map, a zoom control, a custom location indicator and the status
  element; a sample with a direct heading at walking speed; a sample without one.
\<close>

definition example_page :: dom where
  "example_page =
     \<lparr>leafletMap = True, mapContainer = Some Map.empty, mapParent = Some Map.empty,
      elements =
        [\<lparr>classList = [''leaflet-control-zoom'', ''leaflet-bar'', ''leaflet-control''],
          tag = ''div'', src = [], style = Map.empty\<rparr>,
         \<lparr>classList = [''leaflet-marker-icon'', ''custom-location-indicator''],
          tag = ''div'', src = [], style = Map.empty\<rparr>],
      statusElement = Some \<lparr>textContent = Lit [], status_style = Map.empty\<rparr>\<rparr>"

definition gps :: "real \<Rightarrow> sample" where
  "gps h = \<lparr>latitude = - 25.8, longitude = 30.9, heading = Num h, speed = Num 2\<rparr>"

definition fix_at :: "real \<Rightarrow> real \<Rightarrow> sample" where
  "fix_at lat lng = \<lparr>latitude = lat, longitude = lng, heading = Null, speed = Num 2\<rparr>"

text \<open>A page whose only overlay is a marker icon that is not a custom one.\<close>

definition marker_page :: dom where
  "marker_page =
     \<lparr>leafletMap = True, mapContainer = Some Map.empty, mapParent = Some Map.empty,
      elements =
        [\<lparr>classList = [''leaflet-marker-icon''], tag = ''div'', src = [], style = Map.empty\<rparr>],
      statusElement = Some \<lparr>textContent = Lit [], status_style = Map.empty\<rparr>\<rparr>"


section \<open>Arithmetic of headings\<close>

lemma atan2_bounds: "- pi < atan2 y x \<and> atan2 y x \<le> pi"
proof -
  have b: "- (pi / 2) < arctan (y / x)" "arctan (y / x) < pi / 2"
    by (rule arctan_lbound, rule arctan_ubound)
  have p: "0 < pi" by simp
  show ?thesis
  proof (cases "0 < x")
    case True
    then show ?thesis using b p by (simp add: atan2_def)
  next
    case nx: False
    show ?thesis
    proof (cases "x < 0")
      case True
      show ?thesis
      proof (cases "0 \<le> y")
        case True
        with \<open>x < 0\<close> have "y / x \<le> 0" by (simp add: divide_nonneg_neg)
        then have "arctan (y / x) \<le> 0" using arctan_le_iff [of "y / x" 0] by simp
        with True \<open>x < 0\<close> b p show ?thesis by (simp add: atan2_def; linarith?)
      next
        case False
        with \<open>x < 0\<close> have "0 < y / x" by (simp add: divide_neg_neg)
        then have "0 < arctan (y / x)" using arctan_less_iff [of 0 "y / x"] by simp
        with False \<open>x < 0\<close> b p show ?thesis by (simp add: atan2_def; linarith?)
      qed
    next
      case False
      with nx p show ?thesis by (auto simp add: atan2_def; linarith?)
    qed
  qed
qed

lemma js_rem_small: "0 \<le> a \<Longrightarrow> a < 360 \<Longrightarrow> js_rem a 360 = a"
proof -
  assume a: "0 \<le> a" "a < 360"
  then have "\<lfloor>a / 360\<rfloor> = 0" by (simp add: floor_eq_iff)
  with a show ?thesis by (simp add: js_rem_def)
qed

lemma js_rem_wrap: "360 \<le> a \<Longrightarrow> a < 720 \<Longrightarrow> js_rem a 360 = a - 360"
proof -
  assume a: "360 \<le> a" "a < 720"
  then have "\<lfloor>a / 360\<rfloor> = 1" by (simp add: floor_eq_iff)
  with a show ?thesis by (simp add: js_rem_def)
qed

lemma js_rem_neg: "- 360 < a \<Longrightarrow> a < 0 \<Longrightarrow> js_rem a 360 = a"
proof -
  assume a: "- 360 < a" "a < 0"
  then have "\<lceil>a / 360\<rceil> = 0" by (simp add: ceiling_eq_iff)
  with a show ?thesis by (simp add: js_rem_def)
qed

lemma normalise: "- 180 < b \<Longrightarrow> b \<le> 180 \<Longrightarrow> js_rem (b + 360) 360 = (if b < 0 then b + 360 else b)"
  using js_rem_small [of "b + 360"] js_rem_wrap [of "b + 360"] by auto

lemma deg_bounds: "- pi < t \<Longrightarrow> t \<le> pi \<Longrightarrow> - 180 < t * 180 / pi \<and> t * 180 / pi \<le> 180"
proof -
  assume t: "- pi < t" "t \<le> pi"
  have p: "0 < pi" by simp
  from t p have "- 180 * pi < t * 180" by simp
  then have 1: "- 180 < t * 180 / pi" using p by (simp add: pos_less_divide_eq)
  from t p have "t * 180 \<le> 180 * pi" by simp
  then have 2: "t * 180 / pi \<le> 180" using p by (simp add: pos_divide_le_eq)
  from 1 2 show ?thesis by simp
qed

lemma bearing_bounds: "- 180 < bearing a b \<and> bearing a b \<le> 180"
  unfolding bearing_def Let_def using atan2_bounds deg_bounds by blast

lemma bearing_spherical:
  "js_rem (bearing a b + 360) 360 = spherical_bearing (latitude a) (longitude a) (latitude b) (longitude b)"
proof -
  have "js_rem (bearing a b + 360) 360 = (if bearing a b < 0 then bearing a b + 360 else bearing a b)"
    using bearing_bounds normalise by blast
  moreover have "bearing a b = atan2 (sin (radians (longitude b) - radians (longitude a)) * cos (radians (latitude b)))
                    (cos (radians (latitude a)) * sin (radians (latitude b)) - sin (radians (latitude a)) * cos (radians (latitude b)) * cos (radians (longitude b) - radians (longitude a))) * 180 / pi"
    by (simp add: bearing_def radians_def Let_def diff_divide_distrib left_diff_distrib)
  ultimately show ?thesis by (simp add: spherical_bearing_def Let_def)
qed

lemma normalised_in_range: "- 180 < b \<Longrightarrow> b \<le> 180 \<Longrightarrow> in_range (js_rem (b + 360) 360)"
  by (simp add: normalise in_range_def)

lemma planar_normalised:
  "js_rem (atan2 y x * 180 / pi + 360) 360 = (let deg = atan2 y x * 180 / pi in if deg < 0 then deg + 360 else deg)"
  using atan2_bounds [of y x] deg_bounds [of "atan2 y x"] normalise [of "atan2 y x * 180 / pi"]
  by (simp add: Let_def)

lemma spherical_in_range: "in_range (spherical_bearing lat1 lng1 lat2 lng2)"
proof -
  have "spherical_bearing lat1 lng1 lat2 lng2 =
          js_rem (bearing \<lparr>latitude = lat1, longitude = lng1\<rparr> \<lparr>latitude = lat2, longitude = lng2\<rparr> + 360) 360"
    by (simp add: bearing_spherical)
  then show ?thesis using bearing_bounds normalised_in_range by simp
qed

lemma planar_in_range: "in_range (planar_bearing lat1 lng1 lat2 lng2)"
proof -
  have "planar_bearing lat1 lng1 lat2 lng2 = js_rem (atan2 (lng2 - lng1) (lat2 - lat1) * 180 / pi + 360) 360"
    by (simp add: planar_normalised planar_bearing_def)
  then show ?thesis
    using atan2_bounds [of "lng2 - lng1" "lat2 - lat1"] deg_bounds normalised_in_range by simp
qed

lemma compass_in_range:
  assumes "0 \<le> a" and "a \<le> 360"
  shows "in_range (js_rem (360 - a) 360)"
proof (cases "a = 0")
  case True
  then show ?thesis using js_rem_wrap [of 360] by (simp add: in_range_def)
next
  case False
  with assms show ?thesis using js_rem_small [of "360 - a"] by (simp add: in_range_def)
qed

text \<open>
  One step to the north-east at latitude 60: a thousandth of a degree in latitude and
  in longitude. On the flat chart the bearing is 45 degrees; on the sphere a degree of
  longitude is half as long there, and the bearing is below 30 degrees.
\<close>

lemma spherical_north_east: "spherical_bearing 60 0 60.001 0.001 < 30"
proof -
  define d :: real where "d = pi / 180000"
  define p1 :: real where "p1 = pi / 3"
  define p2 :: real where "p2 = pi / 3 + d"
  define X where "X = cos p1 * sin p2 - sin p1 * cos p2 * cos d"
  define Y where "Y = sin d * cos p2"
  have pi0: "0 < pi" by simp
  have d0: "0 < d" and d1: "d < pi / 6" by (simp_all add: d_def)
  have sd: "0 < sin d" using d0 d1 pi0 by (intro sin_gt_zero) linarith+
  have c2: "0 < cos p2" using d0 d1 pi0 unfolding p2_def by (intro cos_gt_zero) linarith+
  have c2h: "cos p2 < 1 / 2"
  proof -
    have "cos p2 < cos (pi / 3)"
      unfolding p2_def using d0 d1 pi0 by (intro cos_monotone_0_pi) linarith+
    then show ?thesis by (simp add: cos_60)
  qed
  have s1: "0 < sin p1" unfolding p1_def using pi0 by (intro sin_gt_zero) linarith+
  have "sin d = sin (p2 - p1)" by (simp add: p2_def p1_def)
  also have "\<dots> = sin p2 * cos p1 - cos p2 * sin p1" by (rule sin_diff)
  finally have sdiff: "sin d = sin p2 * cos p1 - cos p2 * sin p1" .
  have "X - sin d = sin p1 * cos p2 * (1 - cos d)"
    unfolding X_def sdiff by (simp add: algebra_simps)
  moreover have "0 \<le> sin p1 * cos p2 * (1 - cos d)"
    using s1 c2 cos_le_one [of d] by simp
  ultimately have Xd: "sin d \<le> X" by linarith
  then have X0: "0 < X" using sd by linarith
  have Y0: "0 < Y" unfolding Y_def using sd c2 by simp
  have "Y < sin d * (1 / 2)" unfolding Y_def using sd c2h by (intro mult_strict_left_mono)
  also have "\<dots> \<le> X * (1 / 2)" using Xd by simp
  finally have "Y < X * (1 / 2)" .
  then have r: "Y / X < 1 / 2" using X0 by (simp add: pos_divide_less_eq mult.commute)
  have "1 / 2 < 1 / sqrt 3"
  proof -
    have "sqrt 3 < sqrt 4" by (intro real_sqrt_less_mono) simp
    then have "sqrt 3 < 2" by simp
    then show ?thesis by (simp add: field_simps)
  qed
  with r have "Y / X < 1 / sqrt 3" by linarith
  then have "arctan (Y / X) < arctan (1 / sqrt 3)" by (simp only: arctan_less_iff)
  moreover have "arctan (1 / sqrt 3) = pi / 6"
    using pi0 by (intro arctan_unique) (simp_all add: tan_30)
  ultimately have a: "arctan (Y / X) < pi / 6" by simp
  have a0: "0 < arctan (Y / X)" using Y0 X0 arctan_less_iff [of 0 "Y / X"] by simp
  have t: "atan2 Y X = arctan (Y / X)" using X0 by (simp add: atan2_def)
  have "arctan (Y / X) * 180 < pi / 6 * 180" using a by simp
  then have "arctan (Y / X) * 180 / pi < 30" using pi0 by (simp add: pos_divide_less_eq)
  moreover have "0 \<le> arctan (Y / X) * 180 / pi" using a0 pi0 by simp
  moreover have "spherical_bearing 60 0 60.001 0.001 =
      (let deg = atan2 Y X * 180 / pi in if deg < 0 then deg + 360 else deg)"
    by (simp add: spherical_bearing_def radians_def X_def Y_def p1_def p2_def d_def Let_def
        add_divide_distrib)
  ultimately show ?thesis by (simp add: t Let_def)
qed

lemma planar_north_east: "planar_bearing 60 0 60.001 0.001 = 45"
  by (simp add: planar_bearing_def atan2_def arctan_one)

section \<open>What each operation leaves alone\<close>

lemma updateMapRotation_frame:
  "currentHeading (updateMapRotation s) = currentHeading s"
  "lastValidHeading (updateMapRotation s) = lastValidHeading s"
  "lastPosition (updateMapRotation s) = lastPosition s"
  "trackUpMode (updateMapRotation s) = trackUpMode s"
  "headingUpdateInterval (updateMapRotation s) = headingUpdateInterval s"
  by (simp_all add: updateMapRotation_def Let_def split: option.split)

lemma resetMapRotation_frame:
  "currentHeading (resetMapRotation s) = currentHeading s"
  "lastValidHeading (resetMapRotation s) = lastValidHeading s"
  "lastPosition (resetMapRotation s) = lastPosition s"
  "trackUpMode (resetMapRotation s) = trackUpMode s"
  "headingUpdateInterval (resetMapRotation s) = headingUpdateInterval s"
  by (simp_all add: resetMapRotation_def Let_def split: option.split)

lemma updateTrackUpMode_frame:
  "currentHeading (updateTrackUpMode s) = currentHeading s"
  "lastValidHeading (updateTrackUpMode s) = lastValidHeading s"
  "lastPosition (updateTrackUpMode s) = lastPosition s"
  "trackUpMode (updateTrackUpMode s) = trackUpMode s"
  by (simp_all add: updateTrackUpMode_def updateMapRotation_frame resetMapRotation_frame)

lemma onInterval_frame:
  "currentHeading (onInterval s) = currentHeading s"
  "lastValidHeading (onInterval s) = lastValidHeading s"
  "lastPosition (onInterval s) = lastPosition s"
  by (simp_all add: onInterval_def Let_def updateMapRotation_frame)

lemma onError_frame:
  "currentHeading (onError s) = currentHeading s"
  "lastValidHeading (onError s) = lastValidHeading s"
  "lastPosition (onError s) = lastPosition s"
  by (simp_all add: onError_def)

lemma onToggle_frame:
  "currentHeading (onToggle b s) = currentHeading s"
  "lastValidHeading (onToggle b s) = lastValidHeading s"
  "lastPosition (onToggle b s) = lastPosition s"
  by (simp_all add: onToggle_def updateTrackUpMode_frame)

lemma onToggle_mode: "trackUpMode (onToggle b s) = b"
  by (simp add: onToggle_def updateTrackUpMode_frame)

lemma onDeviceOrientation_frame:
  "lastValidHeading (onDeviceOrientation a s) = lastValidHeading s"
  "lastPosition (onDeviceOrientation a s) = lastPosition s"
  by (simp_all add: onDeviceOrientation_def Let_def updateMapRotation_frame split: option.split)

lemma rotateMap_frame:
  "s_currentHeading (rotateMap s) = s_currentHeading s"
  "lastKnownPosition (rotateMap s) = lastKnownPosition s"
  "headingWatchId (rotateMap s) = headingWatchId s"
  "liveWatches (rotateMap s) = liveWatches s"
  "trackUpEnabled (rotateMap s) = trackUpEnabled s"
  by (simp_all add: rotateMap_def Let_def split: option.split)

lemma s_resetMapRotation_frame:
  "s_currentHeading (s_resetMapRotation s) = s_currentHeading s"
  "lastKnownPosition (s_resetMapRotation s) = lastKnownPosition s"
  "headingWatchId (s_resetMapRotation s) = headingWatchId s"
  "liveWatches (s_resetMapRotation s) = liveWatches s"
  "trackUpEnabled (s_resetMapRotation s) = trackUpEnabled s"
  by (simp_all add: s_resetMapRotation_def Let_def)

section \<open>The position callbacks\<close>

text \<open>
  The commit step of the position callback of \<^verbatim>\<open>track_up_mode.js\<close>, once the candidate
  is known, and the callback that stops at the read of \<^verbatim>\<open>lastPosition\<close>.
\<close>

lemma onPosition_commit:
  assumes "newHeading_of p s = Inr (n, lv)"
  shows "currentHeading (snd (onPosition p s)) =
           (if \<bar>n - currentHeading s\<bar> > 3 then n else currentHeading s)"
    and "lastValidHeading (snd (onPosition p s)) = lv"
    and "fst (onPosition p s) =
           (case lastPosition s of Undeclared \<Rightarrow> Some (ReferenceError AtAssign) | Declared old \<Rightarrow> None)"
    and "lastPosition (snd (onPosition p s)) =
           (case lastPosition s of Undeclared \<Rightarrow> Undeclared | Declared old \<Rightarrow> Declared (Some (coords_of p)))"
  using assms
  by (simp_all add: onPosition_def Let_def updateMapRotation_frame split: binding.split)

lemma onPosition_read_error:
  assumes "newHeading_of p s = Inl e"
  shows "onPosition p s = (Some e, s)"
  using assms by (simp add: onPosition_def)

lemma onPosition_mode: "trackUpMode (snd (onPosition p s)) = trackUpMode s"
  by (simp add: onPosition_def Let_def updateMapRotation_frame split: sum.split prod.split binding.split)

lemma valid_heading_iff:
  "(v \<noteq> Null \<and> typeof_number v \<and> \<not> isNaN v) = (\<exists>h. v = Num h)"
  by (cases v) simp_all

lemma s_valid_heading_iff:
  "(v \<noteq> Null \<and> v \<noteq> Undefined \<and> \<not> isNaN v) = (\<exists>h. v = Num h)"
  by (cases v) simp_all

lemma newHeading_method1:
  assumes "heading p = Num h" and "speed p = Null \<or> js_gt (speed p) 0.3"
  shows "newHeading_of p s = Inr (h, h)"
  using assms by (auto simp add: newHeading_of_def)

lemma s_onPosition_method1:
  assumes "heading p = Num h" and "speed p = Null \<or> js_gt (speed p) 0.5"
  shows "s_currentHeading (s_onPosition p t) = h"
  using assms by (auto simp add: s_onPosition_def Let_def rotateMap_frame)

lemma s_onPosition_watches: "liveWatches (s_onPosition p t) = liveWatches t"
  by (auto simp add: s_onPosition_def Let_def rotateMap_frame split: jsnum.split option.split)

lemma s_deliver_method1:
  assumes "heading p = Num h" and "speed p = Null \<or> js_gt (speed p) 0.5" and "0 < n"
  shows "s_currentHeading ((s_onPosition p ^^ n) t) = h"
  using assms(3) by (cases n) (simp_all add: s_onPosition_method1 [OF assms(1,2)])

lemma s_deliver_watches: "liveWatches ((s_onPosition p ^^ n) t) = liveWatches t"
  by (induction n) (simp_all add: s_onPosition_watches)

lemma s_stream:
  assumes "0 < liveWatches t"
  shows "s_headings_after [PositionUpdate (gps 10), PositionUpdate (gps 11), PositionUpdate (gps 50)] t
           = [10, 11, 50]"
proof -
  have g: "heading (gps h) = Num h" "speed (gps h) = Null \<or> js_gt (speed (gps h)) 0.5" for h
    by (simp_all add: gps_def)
  show ?thesis
    using assms by (simp add: s_deliver_method1 [OF g] s_deliver_watches)
qed

lemma gps_candidate: "newHeading_of (gps h) s = Inr (h, h)"
  by (simp add: newHeading_of_def gps_def)

lemma s_onPosition_method2:
  assumes "lastKnownPosition t = Some prev"
    and "\<not> (heading p \<noteq> Null \<and> heading p \<noteq> Undefined \<and> \<not> isNaN (heading p))"
    and "truthy (speed p)" and "js_gt (speed p) 1.0"
    and "\<bar>latitude p - latitude prev\<bar> > 0.0001 \<or> \<bar>longitude p - longitude prev\<bar> > 0.0001"
  shows "s_currentHeading (s_onPosition p t) =
           planar_bearing (latitude prev) (longitude prev) (latitude p) (longitude p)"
  using assms
  by (auto simp add: s_onPosition_def Let_def rotateMap_frame planar_normalised planar_bearing_def)

lemma newHeading_method2:
  assumes "lastPosition s = Declared (Some prev)"
    and "\<not> (heading p \<noteq> Null \<and> typeof_number (heading p) \<and> \<not> isNaN (heading p))"
    and "speed p = Null \<or> js_gt (speed p) 0.5"
    and "\<bar>latitude p - latitude prev\<bar> > 0.00001 \<or> \<bar>longitude p - longitude prev\<bar> > 0.00001"
  shows "newHeading_of p s =
           Inr (spherical_bearing (latitude prev) (longitude prev) (latitude p) (longitude p),
                spherical_bearing (latitude prev) (longitude prev) (latitude p) (longitude p))"
proof -
  have "js_rem (bearing prev (coords_of p) + 360) 360 =
          spherical_bearing (latitude prev) (longitude prev) (latitude p) (longitude p)"
    by (simp add: bearing_spherical coords_of_def)
  with assms show ?thesis
    by (auto simp add: newHeading_of_def Let_def)
qed

lemma newHeading_undeclared:
  assumes "lastPosition s = Undeclared"
  shows "newHeading_of p s =
           (case heading p of
              Num h \<Rightarrow> if speed p = Null \<or> js_gt (speed p) 0.3 then Inr (h, h)
                       else Inr (currentHeading s, lastValidHeading s)
            | _ \<Rightarrow> Inl (ReferenceError AtRead))"
  using assms by (cases "heading p") (simp_all add: newHeading_of_def)

lemma onPosition_undeclared:
  assumes "lastPosition s = Undeclared"
  shows "fst (onPosition p s) =
           Some (ReferenceError (if heading p \<noteq> Null \<and> typeof_number (heading p) \<and> \<not> isNaN (heading p)
                                 then AtAssign else AtRead))"
    and "lastPosition (snd (onPosition p s)) = Undeclared"
    and "\<not> (heading p \<noteq> Null \<and> typeof_number (heading p) \<and> \<not> isNaN (heading p)) \<Longrightarrow>
           snd (onPosition p s) = s"
proof -
  show "fst (onPosition p s) =
           Some (ReferenceError (if heading p \<noteq> Null \<and> typeof_number (heading p) \<and> \<not> isNaN (heading p)
                                 then AtAssign else AtRead))"
  proof (cases "heading p")
    case (Num h)
    then obtain n lv where c: "newHeading_of p s = Inr (n, lv)"
      using newHeading_undeclared [OF assms, of p] by (simp split: if_splits)
    show ?thesis using onPosition_commit(3) [OF c] assms Num by simp
  qed (simp_all add: onPosition_read_error newHeading_undeclared [OF assms])
  show "lastPosition (snd (onPosition p s)) = Undeclared"
  proof (cases "newHeading_of p s")
    case (Inl e)
    then show ?thesis using assms by (simp add: onPosition_read_error)
  next
    case (Inr r)
    then obtain n lv where c: "newHeading_of p s = Inr (n, lv)" by (cases r) simp
    show ?thesis using onPosition_commit(4) [OF c] assms by simp
  qed
  show "snd (onPosition p s) = s"
    if "\<not> (heading p \<noteq> Null \<and> typeof_number (heading p) \<and> \<not> isNaN (heading p))"
    using that by (cases "heading p") (simp_all add: onPosition_read_error newHeading_undeclared [OF assms])
qed

lemma step_undeclared:
  "lastPosition s = Undeclared \<Longrightarrow> lastPosition (step e s) = Undeclared"
  by (cases e) (simp_all add: onPosition_undeclared(2) onError_frame onDeviceOrientation_frame
      onToggle_frame onInterval_frame)

lemma run_undeclared:
  "lastPosition s = Undeclared \<Longrightarrow> lastPosition (run evs s) = Undeclared"
  unfolding run_def by (induction evs arbitrary: s) (simp_all add: step_undeclared)

lemma init_undeclared: "lastPosition (init d) = Undeclared"
  by (simp add: init_def)

lemma tum_stream:
  assumes "currentHeading s = 0"
  shows "headings_after [PositionUpdate (gps 10), PositionUpdate (gps 11), PositionUpdate (gps 50)] s = [10, 10, 50]"
  using assms by (simp add: onPosition_commit(1) [OF gps_candidate])

section \<open>The heading stays in range\<close>

lemma newHeading_in_range:
  assumes "conforming (PositionUpdate p)" and "inv s" and "newHeading_of p s = Inr (n, lv)"
  shows "in_range n \<and> in_range lv"
proof (cases "heading p")
  case (Num h)
  with assms show ?thesis
    by (auto simp add: newHeading_of_def inv_def split: if_splits)
next
  case Null
  with assms show ?thesis
    by (auto simp add: newHeading_of_def inv_def Let_def normalised_in_range bearing_bounds
        split: if_splits binding.splits option.splits)
next
  case Undefined
  with assms show ?thesis
    by (auto simp add: newHeading_of_def inv_def Let_def normalised_in_range bearing_bounds
        split: if_splits binding.splits option.splits)
next
  case NaN
  with assms show ?thesis
    by (auto simp add: newHeading_of_def inv_def Let_def normalised_in_range bearing_bounds
        split: if_splits binding.splits option.splits)
qed

lemma onPosition_inv:
  assumes "conforming (PositionUpdate p)" and "inv s"
  shows "inv (snd (onPosition p s))"
proof (cases "newHeading_of p s")
  case (Inl e)
  with assms show ?thesis by (simp add: onPosition_read_error)
next
  case (Inr r)
  then obtain n lv where c: "newHeading_of p s = Inr (n, lv)" by (cases r) simp
  from newHeading_in_range [OF assms c] assms(2) show ?thesis
    by (simp add: inv_def onPosition_commit(1,2) [OF c])
qed

lemma onDeviceOrientation_inv:
  assumes "conforming (DeviceOrientation alpha)" and "inv s"
  shows "inv (onDeviceOrientation alpha s)"
  using assms
  by (auto simp add: inv_def onDeviceOrientation_def Let_def updateMapRotation_frame compass_in_range
      split: option.splits)

lemma step_inv: "conforming e \<Longrightarrow> inv s \<Longrightarrow> inv (step e s)"
proof (cases e)
  case (PositionUpdate p)
  assume "conforming e" "inv s"
  with PositionUpdate show ?thesis using onPosition_inv by simp
next
  case (DeviceOrientation alpha)
  assume "conforming e" "inv s"
  with DeviceOrientation show ?thesis using onDeviceOrientation_inv by simp
qed (simp_all add: inv_def onError_frame onToggle_frame onInterval_frame)

lemma headings_after_in_range:
  "\<forall>e \<in> set evs. conforming e \<Longrightarrow> inv s \<Longrightarrow> \<forall>h \<in> set (headings_after evs s). in_range h"
proof (induction evs arbitrary: s)
  case Nil
  then show ?case by simp
next
  case (Cons e evs)
  from Cons.prems have i: "inv (step e s)" by (simp add: step_inv)
  from Cons.IH [OF _ i] Cons.prems(1) i show ?case by (simp add: inv_def)
qed

lemma s_onPosition_in_range:
  assumes "conforming (PositionUpdate p)" and "in_range (s_currentHeading t)"
  shows "in_range (s_currentHeading (s_onPosition p t))"
proof -
  have n: "in_range (js_rem (atan2 y x * 180 / pi + 360) 360)" for x y
    using atan2_bounds [of y x] deg_bounds normalised_in_range by blast
  show ?thesis
    using assms n
    by (cases "heading p")
      (auto simp add: s_onPosition_def Let_def rotateMap_frame split: option.splits)
qed

lemma s_deliver_in_range:
  "conforming (PositionUpdate p) \<Longrightarrow> in_range (s_currentHeading t) \<Longrightarrow>
     in_range (s_currentHeading ((s_onPosition p ^^ n) t))"
  by (induction n) (simp_all add: s_onPosition_in_range)

lemma s_error_heading: "s_currentHeading ((s_onError ^^ n) t) = s_currentHeading t"
  by (induction n) (simp_all add: s_onError_def)

lemma s_step_in_range:
  "conforming e \<Longrightarrow> in_range (s_currentHeading t) \<Longrightarrow> in_range (s_currentHeading (s_step e t))"
  by (cases e)
    (simp_all add: s_deliver_in_range s_error_heading s_onToggle_def Let_def startTrackUp_def
      stopTrackUp_def s_resetMapRotation_frame)

lemma s_headings_after_in_range:
  "\<forall>e \<in> set evs. conforming e \<Longrightarrow> in_range (s_currentHeading t) \<Longrightarrow>
     \<forall>h \<in> set (s_headings_after evs t). in_range h"
proof (induction evs arbitrary: t)
  case Nil
  then show ?case by simp
next
  case (Cons e evs)
  from Cons.prems have i: "in_range (s_currentHeading (s_step e t))" by (simp add: s_step_in_range)
  from Cons.IH [OF _ i] Cons.prems(1) i show ?case by simp
qed

lemma init_inv: "inv (init d)"
  by (simp add: inv_def init_def in_range_def)

section \<open>The rotation functions on the page\<close>

lemma for_each_fold:
  assumes idem: "\<And>e. f (f e) = f e" and cls: "\<And>e. classList (f e) = classList e"
  shows "fold (\<lambda>sel. for_each (has_class sel) f) sels es =
           map (\<lambda>e. if \<exists>sel \<in> set sels. has_class sel e then f e else e) es"
proof (induction sels arbitrary: es)
  case Nil
  then show ?case by simp
next
  case (Cons x xs)
  have h: "has_class sel (f e) = has_class sel e" for sel e
    by (simp add: has_class_def cls)
  have "fold (\<lambda>sel. for_each (has_class sel) f) (x # xs) es =
          fold (\<lambda>sel. for_each (has_class sel) f) xs (for_each (has_class x) f es)"
    by simp
  also have "\<dots> = map (\<lambda>e. if \<exists>sel \<in> set xs. has_class sel e then f e else e)
                    (for_each (has_class x) f es)"
    by (rule Cons.IH)
  also have "\<dots> = map (\<lambda>e. if \<exists>sel \<in> set (x # xs). has_class sel e then f e else e) es"
    by (auto simp add: for_each_def h idem)
  finally show ?case .
qed






lemma upright_facts:
  "upright (upright e) = upright e"
  "classList (upright e) = classList e"
  "has_class c (upright e) = has_class c e"
  by (simp_all add: upright_def set_all_def has_class_def)

lemma none_facts:
  "set_el ''transform'' (Plain ''none'') (set_el ''transform'' (Plain ''none'') e)
     = set_el ''transform'' (Plain ''none'') e"
  "has_class c (set_el ''transform'' (Plain ''none'') e) = has_class c e"
  "set_el ''transform'' (Plain ''none'') (upright (set_el ''transform'' (Plain ''none'') e))
     = set_el ''transform'' (Plain ''none'') (upright e)"
  "upright (set_el ''transform'' (Plain ''none'') (upright e))
     = upright e"
  by (simp_all add: set_el_def upright_def set_all_def has_class_def)

lemma reset_pass_idem: "reset_pass a b (reset_pass a b es) = reset_pass a b es"
proof (induction es arbitrary: a b)
  case Nil
  then show ?case by (simp add: reset_pass_def)
next
  case (Cons e es)
  have t: "reset_pass True True xs = map (\<lambda>e. if has_class ''leaflet-control'' e \<or> has_class ''leaflet-popup'' e
                     then upright e else e) xs" for xs
    by (simp add: reset_pass_def)
  show ?case
    using Cons.IH [of a b] Cons.IH [of True b] Cons.IH [of a True] Cons.IH [of True True]
    by (cases a; cases b) (auto simp add: reset_pass_def upright_facts none_facts)
qed

lemma updateUIElementsRotation_reset:
  "updateUIElementsRotation 0 1 d = d\<lparr>elements := reset_pass False False (elements d)\<rparr>"
proof -
  have i: "(\<lambda>e. e\<lparr>style := set_all
                     [(''visibility'', Important ''visible''),
                      (''opacity'', Important ''1''),
                      (''display'', Important ''block''),
                      (''zIndex'', Important ''1000''),
                      (''transform'', Important ''none''),
                      (''transformOrigin'', Important ''center center'')] (style e)\<rparr>) = (\<lambda>e. e)"
    by (simp add: set_all_def)
  have f: "fold (\<lambda>selector. for_each (has_class selector) upright) [''leaflet-control'', ''leaflet-popup''] es
        = map (\<lambda>e. if has_class ''leaflet-control'' e \<or> has_class ''leaflet-popup'' e
                     then upright e else e) es" for es
    using for_each_fold [of upright "[''leaflet-control'', ''leaflet-popup'']" es]
    by (simp add: upright_facts)
  have u: "updateUIElementsRotation 0 1 d =
      d\<lparr>elements :=
        update_first (has_class ''controls-compact'') (set_el ''transform'' (Plain ''none''))
          (update_first (has_class ''track-up-container-compact'')
             (set_el ''transform'' (Plain ''none''))
             (for_each
                (\<lambda>e. has_class ''custom-location-indicator'' e \<or> has_class ''custom-user-location'' e)
                (\<lambda>e. e)
                (fold (\<lambda>selector. for_each (has_class selector) upright)
                   [''leaflet-control'', ''leaflet-popup''] (elements d))))\<rparr>"
    unfolding updateUIElementsRotation_def Let_def i upright_def [abs_def] ..
  show ?thesis
    unfolding u f by (simp add: reset_pass_def for_each_def)
qed

text \<open>
  Resetting is idempotent in both modules, and it sets the transform of the map
  container to \<^verbatim>\<open>none\<close>; in \<^verbatim>\<open>simple_track_up.js\<close> it does the same for every
  control that \<^verbatim>\<open>rotateMap\<close> counter-rotates.
\<close>

lemma resetMapRotation_idempotent:
  "resetMapRotation (resetMapRotation s) = resetMapRotation s"
proof (cases "leafletMap (page s)")
  case False
  then show ?thesis by (simp add: resetMapRotation_def)
next
  case True
  show ?thesis
  proof (cases "mapContainer (page s)")
    case None
    with True show ?thesis by (simp add: resetMapRotation_def)
  next
    case (Some c)
    have p: "map_option (set_all [(''overflow'', Plain []), (''position'', Plain []),
                    (''zIndex'', Plain []), (''backgroundColor'', Plain [])])
              (map_option (set_all [(''overflow'', Plain []), (''position'', Plain []),
                    (''zIndex'', Plain []), (''backgroundColor'', Plain [])]) m)
           = map_option (set_all [(''overflow'', Plain []), (''position'', Plain []),
                    (''zIndex'', Plain []), (''backgroundColor'', Plain [])]) m" for m
      by (cases m) (simp_all add: set_all_def)
    from True Some show ?thesis
      by (simp add: resetMapRotation_def Let_def updateUIElementsRotation_reset reset_pass_idem p)
  qed
qed

lemma resetMapRotation_surface:
  assumes "leafletMap (page s)" and "mapContainer (page s) = Some c"
  shows "map_option (\<lambda>st. st ''transform'') (mapContainer (page (resetMapRotation s)))
           = Some (Some (Plain ''none''))"
  using assms by (simp add: resetMapRotation_def Let_def updateUIElementsRotation_def)

lemma s_resetMapRotation_idempotent:
  "s_resetMapRotation (s_resetMapRotation t) = s_resetMapRotation t"
proof -
  have c: "map_option (set_all [(''transform'', Plain ''none''),
                    (''transition'', Plain ''transform 0.5s ease-out'')])
            (map_option (set_all [(''transform'', Plain ''none''),
                    (''transition'', Plain ''transform 0.5s ease-out'')]) m)
          = map_option (set_all [(''transform'', Plain ''none''),
                    (''transition'', Plain ''transform 0.5s ease-out'')]) m" for m
    by (cases m) (simp_all add: set_all_def)
  have e: "for_each is_control (set_el ''transform'' (Plain ''none''))
             (for_each is_control (set_el ''transform'' (Plain ''none'')) es)
           = for_each is_control (set_el ''transform'' (Plain ''none'')) es" for es
    by (simp add: for_each_def is_control_def none_facts)
  show ?thesis
    by (simp add: s_resetMapRotation_def Let_def c e)
qed

lemma s_resetMapRotation_identity:
  assumes "leafletMap (s_page t)"
  shows "(\<forall>c. mapContainer (s_page (s_resetMapRotation t)) = Some c \<longrightarrow> is_identity (c ''transform'')) \<and>
         (\<forall>e \<in> set (elements (s_page (s_resetMapRotation t))).
            is_control e \<longrightarrow> is_identity (style e ''transform''))"
  using assms
  by (cases "mapContainer (s_page t)")
    (auto simp add: s_resetMapRotation_def Let_def set_all_def for_each_def set_el_def
      is_control_def has_class_def)

text \<open>
  The definitions to unfold when a sequence of events is run on a given page.
\<close>

lemmas page_ops =
  run_def init_def onToggle_def updateTrackUpMode_def updateTrackUpStatus_def
  removeDefaultLocationMarkers_def updateMapRotation_def resetMapRotation_def
  updateUIElementsRotation_def onPosition_def newHeading_of_def gps_def set_all_def set_el_def
  for_each_def has_class_def is_custom_def elementsToCounterRotate_def Let_def

section \<open>The page stays rotated while Track Up is on\<close>






















section \<open>The claims about the heading estimator\<close>

text \<open>
  The movement bearing of \<^verbatim>\<open>simple_track_up.js\<close> is the planar one. Two samples
  without a direct heading at speed 2, the first at latitude 60 and longitude 0, the
  second a thousandth of a degree further north and further east: the module commits
  45 degrees, the spherical bearing between the two points is below 30.
\<close>

theorem planar_bearing_not_spherical:
  "s_currentHeading
     (s_run [ToggleChange True, PositionUpdate (fix_at 60 0), PositionUpdate (fix_at 60.001 0.001)]
        (s_init example_page)) = 45 \<and>
   spherical_bearing 60 0 60.001 0.001 < 30"
proof -
  let ?t = "s_run [ToggleChange True, PositionUpdate (fix_at 60 0)] (s_init example_page)"
  have w: "liveWatches ?t = 1" and l: "lastKnownPosition ?t = Some \<lparr>latitude = 60, longitude = 0\<rparr>"
    by (simp_all add: s_run_def s_onToggle_def startTrackUp_def s_init_def s_onPosition_def
        fix_at_def coords_of_def)
  have "s_currentHeading (s_onPosition (fix_at 60.001 0.001) ?t) = planar_bearing 60 0 60.001 0.001"
    using s_onPosition_method2 [OF l, of "fix_at 60.001 0.001"] by (simp add: fix_at_def)
  moreover have "s_run [ToggleChange True, PositionUpdate (fix_at 60 0),
        PositionUpdate (fix_at 60.001 0.001)] (s_init example_page)
      = s_onPosition (fix_at 60.001 0.001) ?t"
    using w by (simp add: s_run_def)
  ultimately show ?thesis using planar_north_east spherical_north_east by simp
qed

text \<open>
  Claim C1, as amended. For a sample without a valid direct heading, when a prior
  position is stored, the speed exceeds the module's movement threshold and the
  position moved by more than the module's minimum: \<^verbatim>\<open>simple_track_up.js\<close> commits the
  planar bearing of the two coordinate differences, in the range from 0 to 360; the
  position callback of \<^verbatim>\<open>track_up_mode.js\<close>, where \<^verbatim>\<open>lastPosition\<close> is bound to a
  prior position, takes the spherical bearing as its candidate, caches it and commits it
  past the jitter gate. The expression of lines 109 to 115 is the spherical bearing
  formula, and its value is in the range from 0 to 360.
\<close>

theorem movement_bearing:
  "(lastKnownPosition t = Some prev \<and>
    \<not> (heading p \<noteq> Null \<and> heading p \<noteq> Undefined \<and> \<not> isNaN (heading p)) \<and>
    truthy (speed p) \<and> js_gt (speed p) 1.0 \<and>
    (\<bar>latitude p - latitude prev\<bar> > 0.0001 \<or> \<bar>longitude p - longitude prev\<bar> > 0.0001) \<longrightarrow>
      s_currentHeading (s_onPosition p t) =
        planar_bearing (latitude prev) (longitude prev) (latitude p) (longitude p) \<and>
      in_range (s_currentHeading (s_onPosition p t))) \<and>
   (lastPosition s = Declared (Some prev) \<and>
    \<not> (heading p \<noteq> Null \<and> typeof_number (heading p) \<and> \<not> isNaN (heading p)) \<and>
    (speed p = Null \<or> js_gt (speed p) 0.5) \<and>
    (\<bar>latitude p - latitude prev\<bar> > 0.00001 \<or> \<bar>longitude p - longitude prev\<bar> > 0.00001) \<longrightarrow>
      newHeading_of p s =
        Inr (spherical_bearing (latitude prev) (longitude prev) (latitude p) (longitude p),
             spherical_bearing (latitude prev) (longitude prev) (latitude p) (longitude p)) \<and>
      lastValidHeading (snd (onPosition p s)) =
        spherical_bearing (latitude prev) (longitude prev) (latitude p) (longitude p) \<and>
      currentHeading (snd (onPosition p s)) =
        (if \<bar>spherical_bearing (latitude prev) (longitude prev) (latitude p) (longitude p)
              - currentHeading s\<bar> > 3
         then spherical_bearing (latitude prev) (longitude prev) (latitude p) (longitude p)
         else currentHeading s)) \<and>
   js_rem (bearing prev (coords_of p) + 360) 360 =
     spherical_bearing (latitude prev) (longitude prev) (latitude p) (longitude p) \<and>
   in_range (spherical_bearing (latitude prev) (longitude prev) (latitude p) (longitude p))"
proof -
  have a: "s_currentHeading (s_onPosition p t) =
        planar_bearing (latitude prev) (longitude prev) (latitude p) (longitude p) \<and>
      in_range (s_currentHeading (s_onPosition p t))"
    if "lastKnownPosition t = Some prev"
      "\<not> (heading p \<noteq> Null \<and> heading p \<noteq> Undefined \<and> \<not> isNaN (heading p))"
      "truthy (speed p)" "js_gt (speed p) 1.0"
      "\<bar>latitude p - latitude prev\<bar> > 0.0001 \<or> \<bar>longitude p - longitude prev\<bar> > 0.0001"
    using s_onPosition_method2 [OF that] planar_in_range by simp
  have b: "newHeading_of p s =
        Inr (spherical_bearing (latitude prev) (longitude prev) (latitude p) (longitude p),
             spherical_bearing (latitude prev) (longitude prev) (latitude p) (longitude p)) \<and>
      lastValidHeading (snd (onPosition p s)) =
        spherical_bearing (latitude prev) (longitude prev) (latitude p) (longitude p) \<and>
      currentHeading (snd (onPosition p s)) =
        (if \<bar>spherical_bearing (latitude prev) (longitude prev) (latitude p) (longitude p)
              - currentHeading s\<bar> > 3
         then spherical_bearing (latitude prev) (longitude prev) (latitude p) (longitude p)
         else currentHeading s)"
    if "lastPosition s = Declared (Some prev)"
      "\<not> (heading p \<noteq> Null \<and> typeof_number (heading p) \<and> \<not> isNaN (heading p))"
      "speed p = Null \<or> js_gt (speed p) 0.5"
      "\<bar>latitude p - latitude prev\<bar> > 0.00001 \<or> \<bar>longitude p - longitude prev\<bar> > 0.00001"
    using newHeading_method2 [OF that] onPosition_commit(1,2) [OF newHeading_method2 [OF that]]
    by simp
  have c: "js_rem (bearing prev (coords_of p) + 360) 360 =
     spherical_bearing (latitude prev) (longitude prev) (latitude p) (longitude p)"
    by (simp add: bearing_spherical coords_of_def)
  from a b c spherical_in_range show ?thesis by blast
qed

theorem movement_bearing_witness:
  "s_currentHeading
     (s_onPosition (fix_at 60.001 0.001)
        ((s_init example_page)\<lparr>lastKnownPosition := Some \<lparr>latitude = 60, longitude = 0\<rparr>\<rparr>))
     = planar_bearing 60 0 60.001 0.001 \<and>
   newHeading_of (fix_at 60.001 0.001)
     ((init example_page)\<lparr>lastPosition := Declared (Some \<lparr>latitude = 60, longitude = 0\<rparr>)\<rparr>)
     = Inr (spherical_bearing 60 0 60.001 0.001, spherical_bearing 60 0 60.001 0.001) \<and>
   in_range (spherical_bearing 60 0 60.001 0.001)"
  using movement_bearing
    [of "(s_init example_page)\<lparr>lastKnownPosition := Some \<lparr>latitude = 60, longitude = 0\<rparr>\<rparr>"
        "\<lparr>latitude = 60, longitude = 0\<rparr>" "fix_at 60.001 0.001"
        "(init example_page)\<lparr>lastPosition := Declared (Some \<lparr>latitude = 60, longitude = 0\<rparr>)\<rparr>"]
  by (simp add: fix_at_def)

text \<open>
  Claim C2. A sample whose heading is a valid number, with a speed that is unknown or
  above the movement threshold (0.3 in \<^verbatim>\<open>track_up_mode.js\<close>, 0.5 in
  \<^verbatim>\<open>simple_track_up.js\<close>), has its heading adopted as the new heading and cached as
  the last valid heading, and the committed heading is the sample's heading once it
  passes the jitter gate; \<^verbatim>\<open>simple_track_up.js\<close> has no gate and commits it at once.
\<close>

theorem direct_heading_adopted:
  assumes "heading p = Num h"
  shows "(speed p = Null \<or> js_gt (speed p) 0.3 \<longrightarrow>
            newHeading_of p s = Inr (h, h) \<and>
            lastValidHeading (snd (onPosition p s)) = h \<and>
            currentHeading (snd (onPosition p s)) =
              (if \<bar>h - currentHeading s\<bar> > 3 then h else currentHeading s)) \<and>
         (speed p = Null \<or> js_gt (speed p) 0.5 \<longrightarrow> s_currentHeading (s_onPosition p t) = h)"
  using newHeading_method1 [OF assms] onPosition_commit(1,2) [of p s h h]
    s_onPosition_method1 [OF assms]
  by blast

theorem direct_heading_adopted_witness:
  "heading (gps 47) = Num 47 \<and> js_gt (speed (gps 47)) 0.3 \<and> js_gt (speed (gps 47)) 0.5 \<and>
   newHeading_of (gps 47) (init example_page) = Inr (47, 47) \<and>
   lastValidHeading (snd (onPosition (gps 47) (init example_page))) = 47 \<and>
   currentHeading (snd (onPosition (gps 47) (init example_page))) = 47 \<and>
   s_currentHeading (s_onPosition (gps 47) (s_init example_page)) = 47"
  using direct_heading_adopted [of "gps 47" 47 "init example_page" "s_init example_page"]
  by (simp add: gps_def init_def)

text \<open>
  \<^verbatim>\<open>simple_track_up.js\<close> has no jitter gate: on the headings 10, 11 and 50 at speed
  2, from the committed heading 0, it commits 10, 11 and 50.
\<close>

theorem simple_has_no_jitter_gate:
  "s_headings_after [PositionUpdate (gps 10), PositionUpdate (gps 11), PositionUpdate (gps 50)]
     (s_onToggle True (s_init example_page)) = [10, 11, 50] \<and>
   s_headings_after [PositionUpdate (gps 10), PositionUpdate (gps 11), PositionUpdate (gps 50)]
     (s_onToggle True (s_init example_page)) \<noteq> [10, 10, 50]"
proof -
  have w: "0 < liveWatches (s_onToggle True (s_init example_page))"
    by (simp add: s_onToggle_def startTrackUp_def s_init_def)
  show ?thesis unfolding s_stream [OF w] by simp
qed

text \<open>
  Claim C3, as amended. In \<^verbatim>\<open>track_up_mode.js\<close> a candidate heading is committed
  if and only if it differs from the committed heading by more than 3 degrees, and
  the committed heading is kept otherwise; on the headings 10, 11 and 50 at speed 2,
  from the committed heading 0, the committed headings are 10, 10 and 50.
  \<^verbatim>\<open>simple_track_up.js\<close> commits every heading it adopts, so its committed headings on
  that stream are 10, 11 and 50.
\<close>

theorem jitter_gate:
  "(newHeading_of p s = Inr (n, lv) \<longrightarrow>
      currentHeading (snd (onPosition p s)) =
        (if \<bar>n - currentHeading s\<bar> > 3 then n else currentHeading s)) \<and>
   (currentHeading s = 0 \<longrightarrow>
      headings_after [PositionUpdate (gps 10), PositionUpdate (gps 11), PositionUpdate (gps 50)] s
        = [10, 10, 50]) \<and>
   (0 < liveWatches t \<longrightarrow>
      s_headings_after [PositionUpdate (gps 10), PositionUpdate (gps 11), PositionUpdate (gps 50)] t
        = [10, 11, 50])"
  using onPosition_commit(1) [of p s n lv] tum_stream [of s] s_stream [of t]
  by simp

theorem jitter_gate_witness:
  "newHeading_of (gps 11) ((init example_page)\<lparr>currentHeading := 10\<rparr>) = Inr (11, 11) \<and>
   currentHeading (snd (onPosition (gps 11) ((init example_page)\<lparr>currentHeading := 10\<rparr>))) = 10 \<and>
   currentHeading (init example_page) = 0 \<and>
   headings_after [PositionUpdate (gps 10), PositionUpdate (gps 11), PositionUpdate (gps 50)]
     (init example_page) = [10, 10, 50] \<and>
   0 < liveWatches (s_onToggle True (s_init example_page)) \<and>
   s_headings_after [PositionUpdate (gps 10), PositionUpdate (gps 11), PositionUpdate (gps 50)]
     (s_onToggle True (s_init example_page)) = [10, 11, 50]"
  using jitter_gate [of "gps 11" "(init example_page)\<lparr>currentHeading := 10\<rparr>" 11 11 "s_onToggle True (s_init example_page)"]
    jitter_gate [of "gps 11" "init example_page" 11 11 "s_onToggle True (s_init example_page)"]
  by (simp add: gps_candidate init_def s_onToggle_def startTrackUp_def s_init_def)

text \<open>
  A direct heading is adopted as it comes: a sample that reports 400 degrees at speed
  2 commits 400.
\<close>

theorem heading_out_of_range:
  "headings_after [PositionUpdate (gps 400)] (init example_page) = [400] \<and> \<not> in_range 400"
  by (simp add: onPosition_commit(1) [OF gps_candidate] init_def in_range_def)

text \<open>
  Claim C4, as amended. For every sequence of position samples whose numeric heading
  is at least 0 and below 360, orientation events whose angle is at least 0 and at
  most 360, location errors, toggle events and timer ticks, the committed heading of
  each module is at least 0 and below 360 after every event; and applying or
  resetting the map rotation changes no part of the Heading State.
\<close>

theorem heading_in_range:
  assumes "\<forall>e \<in> set evs. conforming e"
  shows "(\<forall>h \<in> set (headings_after evs (init d)). in_range h) \<and>
         (\<forall>h \<in> set (s_headings_after evs (s_init d)). in_range h) \<and>
         heading_state (updateMapRotation s) = heading_state s \<and>
         heading_state (resetMapRotation s) = heading_state s \<and>
         s_heading_state (rotateMap t) = s_heading_state t \<and>
         s_heading_state (s_resetMapRotation t) = s_heading_state t"
proof -
  have "in_range (s_currentHeading (s_init d))" by (simp add: s_init_def in_range_def)
  with assms show ?thesis
    using headings_after_in_range [OF assms init_inv, of d] s_headings_after_in_range [OF assms, of "s_init d"]
    by (simp add: heading_state_def s_heading_state_def updateMapRotation_frame
        resetMapRotation_frame rotateMap_frame s_resetMapRotation_frame)
qed

theorem heading_in_range_witness:
  "list_all conforming
     [ToggleChange True, PositionUpdate (gps 47), DeviceOrientation (Some 90),
      PositionUpdate (fix_at 0 0), PositionError, IntervalTick, ToggleChange False] \<and>
   list_all in_range
     (headings_after
       [ToggleChange True, PositionUpdate (gps 47), DeviceOrientation (Some 90),
        PositionUpdate (fix_at 0 0), PositionError, IntervalTick, ToggleChange False]
       (init example_page)) \<and>
   list_all in_range
     (s_headings_after
       [ToggleChange True, PositionUpdate (gps 47), DeviceOrientation (Some 90),
        PositionUpdate (fix_at 0 0), PositionError, IntervalTick, ToggleChange False]
       (s_init example_page)) \<and>
   heading_state (updateMapRotation (init example_page)) = heading_state (init example_page) \<and>
   heading_state (resetMapRotation (init example_page)) = heading_state (init example_page) \<and>
   s_heading_state (rotateMap (s_init example_page)) = s_heading_state (s_init example_page) \<and>
   s_heading_state (s_resetMapRotation (s_init example_page)) = s_heading_state (s_init example_page)"
proof -
  have c: "\<forall>e \<in> set [ToggleChange True, PositionUpdate (gps 47), DeviceOrientation (Some 90),
                PositionUpdate (fix_at 0 0), PositionError, IntervalTick, ToggleChange False].
      conforming e"
    by (simp add: gps_def fix_at_def in_range_def)
  from c heading_in_range [OF c, of example_page "init example_page" "s_init example_page"]
  show ?thesis unfolding list_all_iff by blast
qed

text \<open>
  Claim C5. The location-error callback of each module leaves the Heading State as
  it was, so a heading committed at 80 degrees stays at 80 degrees, and it sets the
  text of the status element, where the page has one, to \<^verbatim>\<open>GPS Error\<close>.
\<close>

theorem location_error:
  "heading_state (onError s) = heading_state s \<and>
   s_heading_state (s_onError t) = s_heading_state t \<and>
   (statusElement (page s) \<noteq> None \<longrightarrow>
      map_option textContent (statusElement (page (onError s))) = Some (Lit ''GPS Error'')) \<and>
   (statusElement (s_page t) \<noteq> None \<longrightarrow>
      map_option textContent (statusElement (s_page (s_onError t))) = Some (Lit ''GPS Error'')) \<and>
   (currentHeading s = 80 \<longrightarrow> currentHeading (onError s) = 80) \<and>
   (s_currentHeading t = 80 \<longrightarrow> s_currentHeading (s_onError t) = 80)"
  by (auto simp add: heading_state_def s_heading_state_def onError_def s_onError_def
      updateTrackUpStatus_def updateStatus_def split: option.split)

theorem location_error_witness:
  "statusElement (page ((init example_page)\<lparr>currentHeading := 80\<rparr>)) \<noteq> None \<and>
   statusElement (s_page ((s_init example_page)\<lparr>s_currentHeading := 80\<rparr>)) \<noteq> None \<and>
   map_option textContent (statusElement (page (onError ((init example_page)\<lparr>currentHeading := 80\<rparr>))))
     = Some (Lit ''GPS Error'') \<and>
   map_option textContent (statusElement (s_page (s_onError ((s_init example_page)\<lparr>s_currentHeading := 80\<rparr>))))
     = Some (Lit ''GPS Error'') \<and>
   currentHeading (onError ((init example_page)\<lparr>currentHeading := 80\<rparr>)) = 80 \<and>
   s_currentHeading (s_onError ((s_init example_page)\<lparr>s_currentHeading := 80\<rparr>)) = 80"
  using location_error [of "(init example_page)\<lparr>currentHeading := 80\<rparr>"
      "(s_init example_page)\<lparr>s_currentHeading := 80\<rparr>"]
  by (simp add: init_def s_init_def example_page_def)

text \<open>
  Claim C9, evaluated. With Track Up on, a sample with heading 10 and then one with
  heading 0, both at speed 2, commit 10 and then 0; the orientation event with angle
  90 that follows finds \<^verbatim>\<open>currentHeading === 0\<close> and replaces the committed heading
  with 270.
\<close>

theorem compass_overrides_gps:
  "headings_after
     [ToggleChange True, PositionUpdate (gps 10), PositionUpdate (gps 0), DeviceOrientation (Some 90)]
     (init example_page) = [0, 10, 0, 270]"
  by (simp add: onToggle_frame onToggle_mode onPosition_mode onPosition_commit(1) [OF gps_candidate]
      onDeviceOrientation_def updateMapRotation_frame js_rem_small init_def)

text \<open>
  A sample without a direct heading never reaches the final assignment: the
  ReferenceError is thrown where the condition of Method 2 reads the name.
\<close>

theorem reference_error_at_read:
  "fst (onPosition (fix_at (- 25.8) 30.9) (init example_page)) = Some (ReferenceError AtRead) \<and>
   fst (onPosition (fix_at (- 25.8) 30.9) (init example_page)) \<noteq> Some (ReferenceError AtAssign)"
  by (simp add: onPosition_undeclared(1) init_undeclared fix_at_def)

text \<open>
  Claim C10, as amended. From the module as loaded, \<^verbatim>\<open>lastPosition\<close> is never
  bound, and every position callback throws a ReferenceError: at the final assignment,
  after the heading commit, when the sample's heading is a valid number; at the read in
  the condition of Method 2 otherwise, and then the callback has changed nothing, so
  neither Method 2 nor Method 3 ever produces a heading.
\<close>

theorem undeclared_lastPosition:
  "lastPosition (run evs (init d)) = Undeclared \<and>
   fst (onPosition p (run evs (init d))) =
     Some (ReferenceError
       (if heading p \<noteq> Null \<and> typeof_number (heading p) \<and> \<not> isNaN (heading p)
        then AtAssign else AtRead)) \<and>
   (\<not> (heading p \<noteq> Null \<and> typeof_number (heading p) \<and> \<not> isNaN (heading p)) \<longrightarrow>
      snd (onPosition p (run evs (init d))) = run evs (init d)) \<and>
   (heading p = Num h \<and> (speed p = Null \<or> js_gt (speed p) 0.3) \<longrightarrow>
      currentHeading (snd (onPosition p (run evs (init d)))) =
        (if \<bar>h - currentHeading (run evs (init d))\<bar> > 3 then h
         else currentHeading (run evs (init d))))"
  using run_undeclared [OF init_undeclared, of evs d]
    onPosition_undeclared [of "run evs (init d)" p]
    onPosition_commit(1) [OF newHeading_method1, of p h "run evs (init d)"]
  by simp

theorem undeclared_lastPosition_witness:
  "fst (onPosition (fix_at 0 0) (run [PositionUpdate (gps 47)] (init example_page)))
     = Some (ReferenceError AtRead) \<and>
   snd (onPosition (fix_at 0 0) (run [PositionUpdate (gps 47)] (init example_page)))
     = run [PositionUpdate (gps 47)] (init example_page) \<and>
   fst (onPosition (gps 90) (run [PositionUpdate (gps 47)] (init example_page)))
     = Some (ReferenceError AtAssign) \<and>
   currentHeading (run [PositionUpdate (gps 47)] (init example_page)) = 47 \<and>
   currentHeading (snd (onPosition (gps 90) (run [PositionUpdate (gps 47)] (init example_page)))) = 90"
proof -
  let ?s = "run [PositionUpdate (gps 47)] (init example_page)"
  have s: "?s = snd (onPosition (gps 47) (run [] (init example_page)))"
    by (simp add: run_def)
  have z: "currentHeading (run [] (init example_page)) = 0"
    by (simp add: run_def init_def)
  have g: "heading (gps h) = Num h" "speed (gps h) = Num 2" for h
    by (simp_all add: gps_def)
  have f: "heading (fix_at 0 0) = Null"
    by (simp add: fix_at_def)
  have c47: "currentHeading ?s = 47"
    using undeclared_lastPosition [of "[]" example_page "gps 47" 47] unfolding s
    by (simp add: g z)
  have c90: "currentHeading (snd (onPosition (gps 90) ?s)) = 90"
    using undeclared_lastPosition [of "[PositionUpdate (gps 47)]" example_page "gps 90" 90]
    by (simp add: g c47)
  have e90: "fst (onPosition (gps 90) ?s) = Some (ReferenceError AtAssign)"
    using undeclared_lastPosition [of "[PositionUpdate (gps 47)]" example_page "gps 90" 90]
    by (simp add: g)
  have r: "fst (onPosition (fix_at 0 0) ?s) = Some (ReferenceError AtRead)"
      "snd (onPosition (fix_at 0 0) ?s) = ?s"
    using undeclared_lastPosition [of "[PositionUpdate (gps 47)]" example_page "fix_at 0 0" 0]
    by (simp_all add: f)
  from r e90 c47 c90 show ?thesis by blast
qed

section \<open>The claims about the rotation applier\<close>




text \<open>
  Claim C7, evaluated. Track Up is switched on, a heading of 47 degrees is committed,
  Track Up is switched off: the zoom control is back at rotation 0 with scale 1, the
  custom location indicator still has the counter-rotation by 47 degrees with scale
  1 / 1.1. On a page that got a plain marker icon while Track Up was on, the same
  sample and switching off leave that marker with the counter-rotation as well.
\<close>

theorem reset_leaves_overlays_rotated:
  "map (\<lambda>e. (classList e, style e ''transform''))
     (elements (page (run [ToggleChange True, PositionUpdate (gps 47), ToggleChange False]
        (init example_page)))) =
     [([''leaflet-control-zoom'', ''leaflet-bar'', ''leaflet-control''],
         Some (RotateScale 0 1)),
      ([''leaflet-marker-icon'', ''custom-location-indicator''],
         Some (RotateScale 47 (1 / 1.1)))] \<and>
   map (\<lambda>e. (classList e, style e ''transform''))
     (elements (page (run [PositionUpdate (gps 47), ToggleChange False]
        ((init marker_page)\<lparr>trackUpMode := True\<rparr>)))) =
     [([''leaflet-marker-icon''], Some (RotateScale 47 (1 / 1.1)))] \<and>
   \<not> is_identity (Some (RotateScale 47 (1 / 1.1)))"
  by (simp add: page_ops example_page_def marker_page_def)

text \<open>
  Claim C8, evaluated. Track Up is switched on and a heading of 47 degrees is
  committed: \<^verbatim>\<open>updateMapRotation\<close> gives the custom location indicator the
  counter-rotation by 47 degrees with scale 1 / 1.1, as it gives the zoom control.
  Track Up is switched off: the map container is back at \<^verbatim>\<open>none\<close> and the indicator
  still has that transform, now with no surface rotation around it.
\<close>

theorem indicator_counter_rotated:
  "map (\<lambda>e. (classList e, style e ''transform''))
     (elements (page (run [ToggleChange True, PositionUpdate (gps 47)] (init example_page)))) =
     [([''leaflet-control-zoom'', ''leaflet-bar'', ''leaflet-control''],
         Some (RotateScale 47 (1 / 1.1))),
      ([''leaflet-marker-icon'', ''custom-location-indicator''],
         Some (RotateScale 47 (1 / 1.1)))] \<and>
   map_option (\<lambda>st. st ''transform'')
     (mapContainer (page (run [ToggleChange True, PositionUpdate (gps 47), ToggleChange False]
        (init example_page)))) = Some (Some (Plain ''none'')) \<and>
   style (elements (page (run [ToggleChange True, PositionUpdate (gps 47), ToggleChange False]
        (init example_page))) ! 1) ''transform'' = Some (RotateScale 47 (1 / 1.1)) \<and>
   \<not> is_identity (Some (RotateScale 47 (1 / 1.1)))"
  by (simp add: page_ops example_page_def)

end
